theory Spec2Isabelle
  imports Complex_Main
begin

section \<open>The editing session of the photo editor\<close>

text \<open>
  The editor is one React component (\<open>App\<close>) whose \<open>useState\<close> cells form the
  editing session, and two overlay components (\<open>InteractiveText\<close>,
  \<open>InteractiveComponent\<close>) that report changes through \<open>onUpdate\<close>. Every handler
  is modelled as a function from the session (and what the browser hands to the handler)
  to the session after the handler and its callbacks have run, with no other event in
  between.

  JavaScript numbers are modelled as \<^typ>\<open>real\<close>: arithmetic is exact, so the rounding
  of IEEE doubles is not part of the model. \<open>Math.round\<close> is written out.
\<close>

subsection \<open>Data\<close>

datatype Tool = ToolRatio | ToolComponent | ToolLifestyle | ToolText | ToolAdjustment

datatype FontWeight = WeightNormal | WeightBold

datatype FontStyle = StyleNormal | StyleItalic

datatype File = File (fileName: string)

text \<open>\<open>ActiveText\<close> of InteractiveText.tsx; \<open>text\<close>, \<open>x\<close> and \<open>y\<close> are the fields
  \<open>textStr\<close>, \<open>xNatural\<close> and \<open>yNatural\<close>
  (the source's comment: "in natural image coordinates").\<close>

record ActiveText =
  textStr :: string
  fontFamily :: string
  fontSize :: real
  fontWeight :: FontWeight
  fontStyle :: FontStyle
  color :: string
  xNatural :: real
  yNatural :: real
  displayX :: real
  displayY :: real

text \<open>\<open>ComponentLayer\<close> of InteractiveText.tsx; \<open>id\<close>, \<open>x\<close>, \<open>y\<close> and \<open>scale\<close> are the
  fields \<open>layerId\<close>, \<open>layerX\<close>, \<open>layerY\<close> and \<open>layerScale\<close>.\<close>

record ComponentLayer =
  layerId :: string
  src :: string
  originalFile :: File
  layerX :: real
  layerY :: real
  layerScale :: real
  rotation :: real
  flipH :: bool
  flipV :: bool

text \<open>The four properties of an \<open>HTMLImageElement\<close> that the code reads.\<close>

record HTMLImageElement =
  naturalWidth :: real
  naturalHeight :: real
  clientWidth :: real
  clientHeight :: real

text \<open>The state cells of \<open>App\<close>, with the \<open>imageRef\<close> ref.\<close>

record session =
  originalImage :: "File option"
  history :: "string list"
  historyIndex :: int
  activeTool :: Tool
  isLoading :: bool
  error :: "string option"
  imageRef :: "HTMLImageElement option"
  activeText :: "ActiveText option"
  textSuggestions :: "string list"
  isSuggestingText :: bool
  componentLayers :: "ComponentLayer list"
  activeComponentId :: "string option"

subsection \<open>History store\<close>

text \<open>\<open>Array.prototype.slice(0, end)\<close>: a negative \<open>end\<close> counts from the back, and
  the result is cut to the array.\<close>

definition slice0 :: "'a list \<Rightarrow> int \<Rightarrow> 'a list" where
  "slice0 xs e =
     (let n = int (length xs);
          k = (if e < 0 then max (n + e) 0 else min e n)
      in take (nat k) xs)"


definition pushToHistory :: "string \<Rightarrow> session \<Rightarrow> session" where
  "pushToHistory imageDataUrl s =
     (let newHistory = slice0 (history s) (historyIndex s + 1) @ [imageDataUrl]
      in s\<lparr>error := None, history := newHistory,
            historyIndex := int (length newHistory) - 1\<rparr>)"

definition handleUndo :: "session \<Rightarrow> session" where
  "handleUndo s =
     (if historyIndex s > 0
      then s\<lparr>historyIndex := historyIndex s - 1, activeText := None,
             componentLayers := [], activeComponentId := None\<rparr>
      else s)"

definition handleRedo :: "session \<Rightarrow> session" where
  "handleRedo s =
     (if historyIndex s < int (length (history s)) - 1
      then s\<lparr>historyIndex := historyIndex s + 1, activeText := None,
             componentLayers := [], activeComponentId := None\<rparr>
      else s)"

definition handleReset :: "session \<Rightarrow> session" where
  "handleReset s =
     s\<lparr>originalImage := None, history := [], historyIndex := -1, activeTool := ToolRatio,
       isLoading := False, error := None, activeText := None, textSuggestions := [],
       isSuggestingText := False, componentLayers := [], activeComponentId := None\<rparr>"

text \<open>The session as \<open>App\<close> first renders it.\<close>

definition initialSession :: session where
  "initialSession =
     \<lparr>originalImage = None, history = [], historyIndex = -1, activeTool = ToolRatio,
      isLoading = False, error = None, imageRef = None, activeText = None,
      textSuggestions = [], isSuggestingText = False, componentLayers = [],
      activeComponentId = None\<rparr>"

text \<open>Pushing a list of snapshots one after the other, as a sequence of commits does.\<close>

definition pushAll :: "string list \<Rightarrow> session \<Rightarrow> session" where
  "pushAll us s = foldl (\<lambda>t u. pushToHistory u t) s us"

subsection \<open>Geometry resolver\<close>

record RenderedBox =
  renderedWidth :: real
  renderedHeight :: real
  offsetX :: real
  offsetY :: real

record Geometry = RenderedBox +
  scale :: real

text \<open>\<open>getRenderedImageGeometry\<close> of App.tsx and of InteractiveText.tsx (the same body;
  App.tsx first returns \<open>null\<close> for a \<open>null\<close> element, which is \<open>map_option\<close> below).
  A JavaScript division by zero gives \<open>Infinity\<close> or \<open>NaN\<close>, HOL's gives \<open>0\<close>: the
  model is the code where the four dimensions are not zero.\<close>

definition getRenderedImageGeometry :: "HTMLImageElement \<Rightarrow> Geometry" where
  "getRenderedImageGeometry imageElement =
     (let naturalAspectRatio = naturalWidth imageElement / naturalHeight imageElement;
          clientAspectRatio = clientWidth imageElement / clientHeight imageElement
      in if naturalAspectRatio > clientAspectRatio
         then (let rw = clientWidth imageElement;
                   rh = clientWidth imageElement / naturalAspectRatio
               in \<lparr>renderedWidth = rw, renderedHeight = rh, offsetX = 0,
                    offsetY = (clientHeight imageElement - rh) / 2,
                    scale = naturalWidth imageElement / rw\<rparr>)
         else (let rh = clientHeight imageElement;
                   rw = clientHeight imageElement * naturalAspectRatio
               in \<lparr>renderedWidth = rw, renderedHeight = rh,
                    offsetX = (clientWidth imageElement - rw) / 2, offsetY = 0,
                    scale = naturalWidth imageElement / rw\<rparr>))"

definition getRenderedImageGeometryApp :: "HTMLImageElement option \<Rightarrow> Geometry option" where
  "getRenderedImageGeometryApp imageElement = map_option getRenderedImageGeometry imageElement"

text \<open>\<open>getRenderedImageGeometry\<close> of InteractiveComponent.tsx: no \<open>scale\<close> field.\<close>

definition getRenderedImageGeometryComponent :: "HTMLImageElement \<Rightarrow> RenderedBox" where
  "getRenderedImageGeometryComponent imageElement =
     (let naturalAspectRatio = naturalWidth imageElement / naturalHeight imageElement;
          clientAspectRatio = clientWidth imageElement / clientHeight imageElement
      in if naturalAspectRatio > clientAspectRatio
         then (let rw = clientWidth imageElement;
                   rh = clientWidth imageElement / naturalAspectRatio
               in \<lparr>renderedWidth = rw, renderedHeight = rh, offsetX = 0,
                    offsetY = (clientHeight imageElement - rh) / 2\<rparr>)
         else (let rh = clientHeight imageElement;
                   rw = clientHeight imageElement * naturalAspectRatio
               in \<lparr>renderedWidth = rw, renderedHeight = rh,
                    offsetX = (clientWidth imageElement - rw) / 2, offsetY = 0\<rparr>))"

subsection \<open>Text overlay\<close>

record MouseEvent =
  clientX :: real
  clientY :: real

text \<open>A click on the image container: the event with the \<open>left\<close> and \<open>top\<close> of
  \<open>e.currentTarget.getBoundingClientRect()\<close>.\<close>

record ImageClick = MouseEvent +
  rectLeft :: real
  rectTop :: real

definition handleImageClick :: "ImageClick \<Rightarrow> session \<Rightarrow> session" where
  "handleImageClick e s =
     (if activeTool s \<noteq> ToolText \<or> imageRef s = None \<or> activeText s \<noteq> None then s
      else case getRenderedImageGeometryApp (imageRef s) of
        None \<Rightarrow> s
      | Some geometry \<Rightarrow>
          (let dX = clientX e - rectLeft e;
               dY = clientY e - rectTop e;
               imageRelativeX = dX - offsetX geometry;
               imageRelativeY = dY - offsetY geometry
           in if imageRelativeX < 0 \<or> imageRelativeX > renderedWidth geometry
                 \<or> imageRelativeY < 0 \<or> imageRelativeY > renderedHeight geometry
              then s
              else s\<lparr>activeText := Some
                     \<lparr>textStr = ''Your Text Here'', fontFamily = ''Roboto'', fontSize = 50,
                      fontWeight = WeightBold, fontStyle = StyleNormal, color = ''#FFFFFF'',
                      xNatural = imageRelativeX * scale geometry,
                      yNatural = imageRelativeY * scale geometry,
                      displayX = dX, displayY = dY\<rparr>\<rparr>))"

definition handleSelectSuggestion :: "string \<Rightarrow> session \<Rightarrow> session" where
  "handleSelectSuggestion suggestion s =
     (if imageRef s = None then s
      else case activeText s of
        Some t \<Rightarrow> s\<lparr>activeText := Some (t\<lparr>textStr := suggestion\<rparr>), textSuggestions := []\<rparr>
      | None \<Rightarrow>
          (case getRenderedImageGeometryApp (imageRef s) of
             None \<Rightarrow> s
           | Some geometry \<Rightarrow>
               (let centerX = offsetX geometry + renderedWidth geometry / 2;
                    centerY = offsetY geometry + renderedHeight geometry / 2
                in s\<lparr>activeText := Some
                       \<lparr>textStr = suggestion, fontFamily = ''Roboto'', fontSize = 60,
                        fontWeight = WeightBold, fontStyle = StyleNormal, color = ''#FFFFFF'',
                        xNatural = (centerX - offsetX geometry) * scale geometry,
                        yNatural = (centerY - offsetY geometry) * scale geometry,
                        displayX = centerX, displayY = centerY\<rparr>,
                      textSuggestions := []\<rparr>)))"

text \<open>The refs of \<open>InteractiveText\<close>: \<open>dragStart\<close> and \<open>resizeStart\<close> (whose fields
  \<open>x\<close>, \<open>y\<close>, \<open>fontSize\<close> are \<open>resizeX\<close>, \<open>resizeY\<close>, \<open>startFontSize\<close>).\<close>

record DragMouse =
  mouseX :: real
  mouseY :: real

record TextDragStart = DragMouse +
  textX :: real
  textY :: real

record ResizeStart =
  resizeX :: real
  resizeY :: real
  startFontSize :: real

text \<open>\<open>handleMouseMove\<close> of InteractiveText.tsx. The result is the list of the arguments
  of its \<open>onUpdate\<close> calls, in the order of the calls.\<close>

definition handleMouseMoveText ::
  "bool \<Rightarrow> bool \<Rightarrow> TextDragStart \<Rightarrow> ResizeStart \<Rightarrow> HTMLImageElement \<Rightarrow> ActiveText
     \<Rightarrow> MouseEvent \<Rightarrow> ActiveText list" where
  "handleMouseMoveText isDragging isResizing dragStart resizeStart imageElement textData e =
     (let geometry = getRenderedImageGeometry imageElement
      in (if isDragging
          then (let dx = clientX e - mouseX dragStart;
                    dy = clientY e - mouseY dragStart;
                    newDisplayX = max (offsetX geometry)
                      (min (textX dragStart + dx) (renderedWidth geometry + offsetX geometry));
                    newDisplayY = max (offsetY geometry)
                      (min (textY dragStart + dy) (renderedHeight geometry + offsetY geometry));
                    imageRelativeX = newDisplayX - offsetX geometry;
                    imageRelativeY = newDisplayY - offsetY geometry
                in [textData\<lparr>displayX := newDisplayX, displayY := newDisplayY,
                              xNatural := imageRelativeX * scale geometry,
                              yNatural := imageRelativeY * scale geometry\<rparr>])
          else [])
       @ (if isResizing
          then (let dx = clientX e - resizeX resizeStart;
                    dy = clientY e - resizeY resizeStart;
                    delta = (if \<bar>dx\<bar> > \<bar>dy\<bar> then dx else dy);
                    newFontSize = max 8 (startFontSize resizeStart + delta * (1/2))
                in [textData\<lparr>fontSize := newFontSize\<rparr>])
          else []))"


text \<open>The invariant of \<open>ActiveText\<close>: natural and display coordinates agree under a
  geometry.\<close>

definition coordsAgree :: "Geometry \<Rightarrow> ActiveText \<Rightarrow> bool" where
  "coordsAgree g t \<longleftrightarrow>
     xNatural t = (displayX t - offsetX g) * scale g
     \<and> yNatural t = (displayY t - offsetY g) * scale g"

subsection \<open>Component layers\<close>

text \<open>What a promise settles to: its value, or a rejection with the \<open>message\<close> of the
  error when it has one.\<close>

datatype 'a settled = Resolved 'a | Rejected "string option"

text \<open>The decimal digits of a number, as a template literal prints \<open>Date.now()\<close>.\<close>

definition digit_char :: "nat \<Rightarrow> char" where
  "digit_char d = ''0123456789'' ! d"

fun string_of_nat :: "nat \<Rightarrow> string" where
  "string_of_nat n =
     (if n < 10 then [digit_char n] else string_of_nat (n div 10) @ [digit_char (n mod 10)])"

declare string_of_nat.simps [simp del]

text \<open>\<open>handleComponentUpload\<close>: \<open>fileToDataUrl\<close> is the file reader, \<open>now\<close> the value of
  \<open>Date.now()\<close> (milliseconds since the epoch) when the layer is created.\<close>

definition handleComponentUpload ::
  "(File \<Rightarrow> string settled) \<Rightarrow> nat \<Rightarrow> File \<Rightarrow> session \<Rightarrow> session" where
  "handleComponentUpload fileToDataUrl now file s =
     (case fileToDataUrl file of
        Resolved dataUrl \<Rightarrow>
          (let newComponent =
                 \<lparr>layerId = ''comp_'' @ string_of_nat now, src = dataUrl, originalFile = file,
                  layerX = 1/2, layerY = 1/2, layerScale = 1/2, rotation = 0,
                  flipH = False, flipV = False\<rparr>
           in s\<lparr>componentLayers := componentLayers s @ [newComponent],
                 activeComponentId := Some (layerId newComponent)\<rparr>)
      | Rejected _ \<Rightarrow> s\<lparr>error := Some ''Could not load component image file.''\<rparr>)"

text \<open>A sequence of uploads, each with the clock reading at which its layer is created.\<close>

definition uploadAll ::
  "(File \<Rightarrow> string settled) \<Rightarrow> (nat \<times> File) list \<Rightarrow> session \<Rightarrow> session" where
  "uploadAll fileToDataUrl ups s =
     foldl (\<lambda>t (now, file). handleComponentUpload fileToDataUrl now file t) s ups"

text \<open>Whether the file reader gives a data URL for a file.\<close>

definition resolves :: "(File \<Rightarrow> string settled) \<Rightarrow> File \<Rightarrow> bool" where
  "resolves fileToDataUrl file =
     (case fileToDataUrl file of Resolved _ \<Rightarrow> True | Rejected _ \<Rightarrow> False)"

definition handleComponentUpdate :: "ComponentLayer \<Rightarrow> session \<Rightarrow> session" where
  "handleComponentUpdate updatedLayer s =
     s\<lparr>componentLayers :=
         map (\<lambda>c. if layerId c = layerId updatedLayer then updatedLayer else c)
           (componentLayers s)\<rparr>"

text \<open>\<open>!activeComponentId\<close> holds for \<open>null\<close> and for the empty string.\<close>

definition handleDeleteComponent :: "session \<Rightarrow> session" where
  "handleDeleteComponent s =
     (case activeComponentId s of
        None \<Rightarrow> s
      | Some i \<Rightarrow>
          if i = [] then s
          else s\<lparr>componentLayers := filter (\<lambda>c. layerId c \<noteq> i) (componentLayers s),
                 activeComponentId := None\<rparr>)"





subsection \<open>The drawing surface\<close>

text \<open>The calls the code makes on a 2D context, as data. An image is named by its
  \<open>src\<close>; the font is kept as its parts.\<close>

datatype canvas_op =
    SetFillStyle string
  | FillRect real real real real
  | DrawImage string real real
  | DrawImageScaled string real real real real
  | Save
  | Restore
  | Translate real real
  | Rotate real
  | Scale real real
  | SetFont FontStyle FontWeight real string
  | SetTextAlign string
  | SetTextBaseline string
  | FillText string real real

record Canvas =
  width :: real
  height :: real
  ops :: "canvas_op list"



text \<open>\<open>Math.round\<close>: the nearest integer, a tie going up.\<close>

definition js_round :: "real \<Rightarrow> real" where
  "js_round v = of_int \<lfloor>v + 1/2\<rfloor>"

subsection \<open>Commit operations\<close>




text \<open>The canvas that the \<open>onload\<close> of \<open>handleApplyRatio\<close> draws.\<close>

definition ratioCanvas :: "real \<Rightarrow> string \<Rightarrow> HTMLImageElement \<Rightarrow> Canvas" where
  "ratioCanvas aspectRatio imgSrc img =
     (let originalWidth = naturalWidth img;
          originalHeight = naturalHeight img;
          originalAspectRatio = originalWidth / originalHeight;
          (newWidth, newHeight) =
            (if aspectRatio > originalAspectRatio
             then (let newHeight = originalHeight in (newHeight * aspectRatio, newHeight))
             else (let newWidth = originalWidth in (newWidth, newWidth / aspectRatio)));
          newWidth = js_round newWidth;
          newHeight = js_round newHeight;
          x = (newWidth - originalWidth) / 2;
          y = (newHeight - originalHeight) / 2
      in \<lparr>width = newWidth, height = newHeight,
          ops = [SetFillStyle ''#FFFFFF'', FillRect 0 0 newWidth newHeight,
                 DrawImage imgSrc x y]\<rparr>)"




text \<open>The canvas that \<open>handleMergeComponent\<close> draws once both images are loaded.\<close>

definition mergeCanvas ::
  "string \<Rightarrow> HTMLImageElement \<Rightarrow> HTMLImageElement \<Rightarrow> ComponentLayer \<Rightarrow> Canvas" where
  "mergeCanvas baseSrc baseImage componentImage c =
     (let centerX = layerX c * naturalWidth baseImage;
          centerY = layerY c * naturalHeight baseImage;
          componentAspectRatio = naturalWidth componentImage / naturalHeight componentImage;
          baseWidthReference = naturalWidth baseImage;
          scaledWidth = baseWidthReference * layerScale c;
          drawWidth = scaledWidth;
          drawHeight = scaledWidth / componentAspectRatio
      in \<lparr>width = naturalWidth baseImage, height = naturalHeight baseImage,
          ops = [DrawImage baseSrc 0 0,
                 Save,
                 Translate centerX centerY,
                 Rotate (rotation c * pi / 180),
                 Scale (if flipH c then -1 else 1) (if flipV c then -1 else 1),
                 DrawImageScaled (src c) (- drawWidth / 2) (- drawHeight / 2) drawWidth drawHeight,
                 Restore]\<rparr>)"


subsection \<open>What the drawing calls do to the transform\<close>

text \<open>The current transformation matrix of a 2D context, \<open>[a c e; b d f; 0 0 1]\<close>.
  \<open>translate\<close>, \<open>rotate\<close> and \<open>scale\<close> multiply it on the right by their own matrix;
  \<open>save\<close> and \<open>restore\<close> push and pop it; a drawing call paints through the matrix in
  force at the call.\<close>

datatype Matrix = Matrix real real real real real real

fun mat_mul :: "Matrix \<Rightarrow> Matrix \<Rightarrow> Matrix" where
  "mat_mul (Matrix a1 b1 c1 d1 e1 f1) (Matrix a2 b2 c2 d2 e2 f2) =
     Matrix (a1 * a2 + c1 * b2) (b1 * a2 + d1 * b2)
            (a1 * c2 + c1 * d2) (b1 * c2 + d1 * d2)
            (a1 * e2 + c1 * f2 + e1) (b1 * e2 + d1 * f2 + f1)"

fun mat_apply :: "Matrix \<Rightarrow> real \<times> real \<Rightarrow> real \<times> real" where
  "mat_apply (Matrix a b c d e f) (px, py) = (a * px + c * py + e, b * px + d * py + f)"

definition identityM :: Matrix where
  "identityM = Matrix 1 0 0 1 0 0"

definition translateM :: "real \<Rightarrow> real \<Rightarrow> Matrix" where
  "translateM tx ty = Matrix 1 0 0 1 tx ty"

definition rotateM :: "real \<Rightarrow> Matrix" where
  "rotateM angle = Matrix (cos angle) (sin angle) (- sin angle) (cos angle) 0 0"

definition scaleM :: "real \<Rightarrow> real \<Rightarrow> Matrix" where
  "scaleM sx sy = Matrix sx 0 0 sy 0 0"

record Context2d =
  ctm :: Matrix
  saved :: "Matrix list"
  painted :: "(canvas_op \<times> Matrix) list"

fun exec_op :: "Context2d \<Rightarrow> canvas_op \<Rightarrow> Context2d" where
  "exec_op cx Save = cx\<lparr>saved := ctm cx # saved cx\<rparr>"
| "exec_op cx Restore =
     (case saved cx of [] \<Rightarrow> cx | m # ms \<Rightarrow> cx\<lparr>ctm := m, saved := ms\<rparr>)"
| "exec_op cx (Translate tx ty) = cx\<lparr>ctm := mat_mul (ctm cx) (translateM tx ty)\<rparr>"
| "exec_op cx (Rotate angle) = cx\<lparr>ctm := mat_mul (ctm cx) (rotateM angle)\<rparr>"
| "exec_op cx (Scale sx sy) = cx\<lparr>ctm := mat_mul (ctm cx) (scaleM sx sy)\<rparr>"
| "exec_op cx (FillRect x y w h) = cx\<lparr>painted := painted cx @ [(FillRect x y w h, ctm cx)]\<rparr>"
| "exec_op cx (DrawImage i x y) = cx\<lparr>painted := painted cx @ [(DrawImage i x y, ctm cx)]\<rparr>"
| "exec_op cx (DrawImageScaled i x y w h) =
     cx\<lparr>painted := painted cx @ [(DrawImageScaled i x y w h, ctm cx)]\<rparr>"
| "exec_op cx (FillText t x y) = cx\<lparr>painted := painted cx @ [(FillText t x y, ctm cx)]\<rparr>"
| "exec_op cx _ = cx"

definition paint :: "canvas_op list \<Rightarrow> (canvas_op \<times> Matrix) list" where
  "paint os = painted (foldl exec_op \<lparr>ctm = identityM, saved = [], painted = []\<rparr> os)"

text \<open>The matrix of the three transform calls of the merge, multiplied in the order of
  the calls: translate, rotate, scale.\<close>

definition mergeTransform :: "HTMLImageElement \<Rightarrow> ComponentLayer \<Rightarrow> Matrix" where
  "mergeTransform baseImage c =
     mat_mul (mat_mul (translateM (layerX c * naturalWidth baseImage)
                                  (layerY c * naturalHeight baseImage))
                      (rotateM (rotation c * pi / 180)))
             (scaleM (if flipH c then -1 else 1) (if flipV c then -1 else 1))"

text \<open>The two results that the specification tells apart, as maps from a point of the
  component (relative to the component's centre) to the canvas. \<open>rotatePoint\<close> turns a
  point about the origin the way \<open>rotate\<close> does; \<open>flipPoint\<close> mirrors it.
  "Rotate then flip": the component is turned and the turned picture is mirrored.
  "Flip then rotate": the component is mirrored and the mirrored picture is turned.\<close>

definition rotatePoint :: "real \<Rightarrow> real \<times> real \<Rightarrow> real \<times> real" where
  "rotatePoint angle p =
     (fst p * cos angle - snd p * sin angle, fst p * sin angle + snd p * cos angle)"

definition flipPoint :: "bool \<Rightarrow> bool \<Rightarrow> real \<times> real \<Rightarrow> real \<times> real" where
  "flipPoint h v p = ((if h then -1 else 1) * fst p, (if v then -1 else 1) * snd p)"

definition rotateThenFlip ::
  "HTMLImageElement \<Rightarrow> ComponentLayer \<Rightarrow> real \<times> real \<Rightarrow> real \<times> real" where
  "rotateThenFlip baseImage c p =
     (let q = flipPoint (flipH c) (flipV c) (rotatePoint (rotation c * pi / 180) p)
      in (layerX c * naturalWidth baseImage + fst q, layerY c * naturalHeight baseImage + snd q))"

definition flipThenRotate ::
  "HTMLImageElement \<Rightarrow> ComponentLayer \<Rightarrow> real \<times> real \<Rightarrow> real \<times> real" where
  "flipThenRotate baseImage c p =
     (let q = rotatePoint (rotation c * pi / 180) (flipPoint (flipH c) (flipV c) p)
      in (layerX c * naturalWidth baseImage + fst q, layerY c * naturalHeight baseImage + snd q))"

subsection \<open>Example inputs\<close>

text \<open>A \<open>1000 \<times> 500\<close> image shown in a \<open>400 \<times> 400\<close> box, and a session that shows
  one snapshot with the text tool selected.\<close>

definition demoImage :: HTMLImageElement where
  "demoImage = \<lparr>naturalWidth = 1000, naturalHeight = 500, clientWidth = 400, clientHeight = 400\<rparr>"

definition demoSession :: session where
  "demoSession =
     \<lparr>originalImage = Some (File ''photo.png''), history = [''data:image/png;base64,AAAA''],
      historyIndex = 0, activeTool = ToolText, isLoading = False, error = None,
      imageRef = Some demoImage, activeText = None, textSuggestions = [''Summer Sale''],
      isSuggestingText = False, componentLayers = [], activeComponentId = None\<rparr>"


text \<open>A \<open>1000 \<times> 1000\<close> image shown at \<open>500 \<times> 500\<close>, a file reader that succeeds, and a
  layer as an upload creates it.\<close>

definition squareImage :: HTMLImageElement where
  "squareImage = \<lparr>naturalWidth = 1000, naturalHeight = 1000, clientWidth = 500, clientHeight = 500\<rparr>"

definition demoReader :: "File \<Rightarrow> string settled" where
  "demoReader file = Resolved (''data:image/png;name='' @ fileName file)"

definition demoLayer :: ComponentLayer where
  "demoLayer =
     \<lparr>layerId = ''comp_1700000000000'', src = ''data:image/png;name=logo.png'',
      originalFile = File ''logo.png'', layerX = 1/2, layerY = 1/2, layerScale = 1/2,
      rotation = 0, flipH = False, flipV = False\<rparr>"





text \<open>The example layer turned by a quarter and mirrored horizontally.\<close>

definition turnedLayer :: ComponentLayer where
  "turnedLayer = demoLayer\<lparr>rotation := 90, flipH := True\<rparr>"

section \<open>History: truncation on push, undo and redo at the boundaries\<close>

lemma slice0_in_range:
  "0 \<le> e \<Longrightarrow> e \<le> int (length xs) \<Longrightarrow> slice0 xs e = take (nat e) xs"
  by (simp add: slice0_def Let_def)

lemma history_handleUndo [simp]: "history (handleUndo s) = history s"
  by (simp add: handleUndo_def)

lemma historyIndex_handleUndo:
  "historyIndex (handleUndo s) = (if historyIndex s > 0 then historyIndex s - 1 else historyIndex s)"
  by (simp add: handleUndo_def)

lemma history_funpow_handleUndo [simp]: "history ((handleUndo ^^ k) s) = history s"
  by (induction k) simp_all

lemma historyIndex_funpow_handleUndo:
  "int k \<le> historyIndex s \<Longrightarrow> historyIndex ((handleUndo ^^ k) s) = historyIndex s - int k"
proof (induction k)
  case 0
  show ?case by simp
next
  case (Suc k)
  then have "historyIndex ((handleUndo ^^ k) s) = historyIndex s - int k" by simp
  with Suc.prems show ?case by (simp add: historyIndex_handleUndo)
qed

lemma pushToHistory_at:
  assumes "0 \<le> historyIndex s + 1" "historyIndex s + 1 \<le> int (length (history s))"
  shows "history (pushToHistory u s) = take (nat (historyIndex s + 1)) (history s) @ [u]"
    and "historyIndex (pushToHistory u s) = historyIndex s + 1"
  using assms by (simp_all add: pushToHistory_def Let_def slice0_in_range)

lemma pushAll_snoc: "pushAll (us @ [u]) s = pushToHistory u (pushAll us s)"
  by (simp add: pushAll_def)

lemma pushAll_from_empty:
  assumes "history s = []" "historyIndex s = -1"
  shows "history (pushAll us s) = us \<and> historyIndex (pushAll us s) = int (length us) - 1"
proof (induction us rule: rev_induct)
  case Nil
  show ?case using assms by (simp add: pushAll_def)
next
  case (snoc u us)
  then show ?case
    by (simp add: pushAll_snoc pushToHistory_def Let_def slice0_def)
qed

text \<open>
  Claim C1. Take a history of \<open>N\<close> snapshots with the cursor on the last one (the state
  that \<open>N\<close> pushes leave), undo \<open>K\<close> times with \<open>K \<le> N - 1\<close>, and push one new
  snapshot. The push cuts every snapshot beyond the cursor before it appends: the new
  history is the first \<open>N - K\<close> old snapshots followed by the new one, its length is
  \<open>N - K + 1\<close>, and the cursor is the index of the new last element.
\<close>

theorem push_after_undo_discards_redo_branch:
  assumes "length (history s) = N" and "historyIndex s = int N - 1"
    and "1 \<le> N" and "K \<le> N - 1"
  shows "history (pushToHistory u ((handleUndo ^^ K) s)) = take (N - K) (history s) @ [u]
       \<and> length (history (pushToHistory u ((handleUndo ^^ K) s))) = N - K + 1
       \<and> historyIndex (pushToHistory u ((handleUndo ^^ K) s))
           = int (length (history (pushToHistory u ((handleUndo ^^ K) s)))) - 1
       \<and> history (pushToHistory u ((handleUndo ^^ K) s))
           ! nat (historyIndex (pushToHistory u ((handleUndo ^^ K) s))) = u"
proof -
  let ?t = "(handleUndo ^^ K) s"
  have idx: "historyIndex ?t = int N - 1 - int K"
    using assms by (simp add: historyIndex_funpow_handleUndo)
  have lo: "0 \<le> historyIndex ?t + 1" using idx assms by simp
  have hi: "historyIndex ?t + 1 \<le> int (length (history ?t))" using idx assms by simp
  have n: "nat (historyIndex ?t + 1) = N - K" using idx assms by simp
  have h: "history (pushToHistory u ?t) = take (N - K) (history s) @ [u]"
    using pushToHistory_at(1) [OF lo hi] n by simp
  have len: "length (history (pushToHistory u ?t)) = N - K + 1"
    using h assms by simp
  have c: "historyIndex (pushToHistory u ?t) = int (N - K)"
    using pushToHistory_at(2) [OF lo hi] idx assms by simp
  have at: "(take (N - K) (history s) @ [u]) ! (N - K) = u"
    using assms by (simp add: nth_append)
  show ?thesis using h len c at by simp
qed

theorem push_after_undo_discards_redo_branch_witness:
  "history (pushToHistory ''d'' ((handleUndo ^^ 2)
       (pushAll [''a'', ''b'', ''c''] initialSession))) = [''a'', ''d'']
   \<and> historyIndex (pushToHistory ''d'' ((handleUndo ^^ 2)
       (pushAll [''a'', ''b'', ''c''] initialSession))) = 1"
proof -
  let ?s = "pushAll [''a'', ''b'', ''c''] initialSession"
  have e: "history initialSession = []" "historyIndex initialSession = -1"
    by (simp_all add: initialSession_def)
  have p: "history ?s = [''a'', ''b'', ''c'']" "historyIndex ?s = 2"
    using pushAll_from_empty [OF e, of "[''a'', ''b'', ''c'']"] by simp_all
  have "length (history ?s) = 3" "historyIndex ?s = int 3 - 1" "1 \<le> (3::nat)"
    "(2::nat) \<le> 3 - 1"
    using p by simp_all
  from push_after_undo_discards_redo_branch [OF this, of "''d''"] p
  show ?thesis by simp
qed

text \<open>
  Claim C9. With the cursor at or below \<open>0\<close> (the empty history has cursor \<open>-1\<close>),
  \<open>handleUndo\<close> returns the session as it was; with the cursor at or beyond the last index,
  so does \<open>handleRedo\<close>. Both handlers are total: there is no branch on which they throw.
\<close>

theorem undo_redo_noop_at_boundary:
  "(historyIndex s \<le> 0 \<longrightarrow> handleUndo s = s)
   \<and> (historyIndex s \<ge> int (length (history s)) - 1 \<longrightarrow> handleRedo s = s)
   \<and> (history s = [] \<and> historyIndex s = -1 \<longrightarrow> handleUndo s = s \<and> handleRedo s = s)"
proof -
  have undo: "historyIndex s \<le> 0 \<longrightarrow> handleUndo s = s"
    by (simp add: handleUndo_def)
  have redo: "historyIndex s \<ge> int (length (history s)) - 1 \<longrightarrow> handleRedo s = s"
    by (simp add: handleRedo_def)
  have empty: "history s = [] \<and> historyIndex s = -1 \<longrightarrow> handleUndo s = s \<and> handleRedo s = s"
    by (simp add: handleUndo_def handleRedo_def)
  show ?thesis using undo redo empty by blast
qed

theorem undo_redo_noop_at_boundary_witness:
  "handleUndo initialSession = initialSession \<and> handleRedo initialSession = initialSession
   \<and> history initialSession = [] \<and> historyIndex initialSession = -1"
proof -
  have e: "history initialSession = [] \<and> historyIndex initialSession = -1"
    by (simp add: initialSession_def)
  from undo_redo_noop_at_boundary [of initialSession] e show ?thesis by simp
qed

section \<open>Geometry resolver: offsets and centering\<close>

lemma geometry_box:
  "RenderedBox.truncate (getRenderedImageGeometry i) = getRenderedImageGeometryComponent i"
  by (simp add: getRenderedImageGeometry_def getRenderedImageGeometryComponent_def Let_def
      RenderedBox.truncate_def)

lemma geometry_offsets:
  assumes "0 < naturalWidth i" "0 < naturalHeight i" "0 < clientWidth i" "0 < clientHeight i"
  shows "offsetX (getRenderedImageGeometry i) = 0 \<or> offsetY (getRenderedImageGeometry i) = 0"
    and "offsetX (getRenderedImageGeometry i) = 0 \<and> offsetY (getRenderedImageGeometry i) = 0
         \<longleftrightarrow> naturalWidth i / naturalHeight i = clientWidth i / clientHeight i"
    and "offsetX (getRenderedImageGeometry i) * 2 + renderedWidth (getRenderedImageGeometry i)
         = clientWidth i"
    and "offsetY (getRenderedImageGeometry i) * 2 + renderedHeight (getRenderedImageGeometry i)
         = clientHeight i"
  using assms by (auto simp add: getRenderedImageGeometry_def Let_def field_simps)

lemma geometry_offsets_component:
  assumes "0 < naturalWidth i" "0 < naturalHeight i" "0 < clientWidth i" "0 < clientHeight i"
  shows "offsetX (getRenderedImageGeometryComponent i) = 0
         \<or> offsetY (getRenderedImageGeometryComponent i) = 0"
    and "offsetX (getRenderedImageGeometryComponent i) = 0
         \<and> offsetY (getRenderedImageGeometryComponent i) = 0
         \<longleftrightarrow> naturalWidth i / naturalHeight i = clientWidth i / clientHeight i"
    and "offsetX (getRenderedImageGeometryComponent i) * 2
           + renderedWidth (getRenderedImageGeometryComponent i) = clientWidth i"
    and "offsetY (getRenderedImageGeometryComponent i) * 2
           + renderedHeight (getRenderedImageGeometryComponent i) = clientHeight i"
  using assms by (auto simp add: getRenderedImageGeometryComponent_def Let_def field_simps)

lemma geometry_positive:
  assumes "0 < naturalWidth i" "0 < naturalHeight i" "0 < clientWidth i" "0 < clientHeight i"
  shows "0 < renderedWidth (getRenderedImageGeometry i)"
    and "0 < renderedHeight (getRenderedImageGeometry i)"
    and "renderedWidth (getRenderedImageGeometry i) * scale (getRenderedImageGeometry i)
         = naturalWidth i"
    and "renderedHeight (getRenderedImageGeometry i) * scale (getRenderedImageGeometry i)
         = naturalHeight i"
  using assms by (auto simp add: getRenderedImageGeometry_def Let_def field_simps)

text \<open>
  Claim C2, as the code has it. For positive natural and client dimensions, both copies
  of the resolver (App.tsx and InteractiveText.tsx; InteractiveComponent.tsx) return
  offsets of which at least one is zero; both are zero exactly when the natural and the
  client aspect ratio are equal, so exactly one is zero exactly when the ratios differ.
  The image is centred on both axes: \<open>offsetX * 2 + renderedWidth = clientWidth\<close> and
  \<open>offsetY * 2 + renderedHeight = clientHeight\<close>.
\<close>

theorem geometry_one_offset_zero_and_centered:
  assumes "0 < naturalWidth i" "0 < naturalHeight i" "0 < clientWidth i" "0 < clientHeight i"
  shows "(offsetX (getRenderedImageGeometry i) = 0 \<or> offsetY (getRenderedImageGeometry i) = 0)
       \<and> (((offsetX (getRenderedImageGeometry i) = 0) \<noteq> (offsetY (getRenderedImageGeometry i) = 0))
            \<longleftrightarrow> naturalWidth i / naturalHeight i \<noteq> clientWidth i / clientHeight i)
       \<and> offsetX (getRenderedImageGeometry i) * 2 + renderedWidth (getRenderedImageGeometry i)
           = clientWidth i
       \<and> offsetY (getRenderedImageGeometry i) * 2 + renderedHeight (getRenderedImageGeometry i)
           = clientHeight i
       \<and> (offsetX (getRenderedImageGeometryComponent i) = 0
            \<or> offsetY (getRenderedImageGeometryComponent i) = 0)
       \<and> (((offsetX (getRenderedImageGeometryComponent i) = 0)
              \<noteq> (offsetY (getRenderedImageGeometryComponent i) = 0))
            \<longleftrightarrow> naturalWidth i / naturalHeight i \<noteq> clientWidth i / clientHeight i)
       \<and> offsetX (getRenderedImageGeometryComponent i) * 2
           + renderedWidth (getRenderedImageGeometryComponent i) = clientWidth i
       \<and> offsetY (getRenderedImageGeometryComponent i) * 2
           + renderedHeight (getRenderedImageGeometryComponent i) = clientHeight i"
proof -
  note a = geometry_offsets [OF assms]
  note b = geometry_offsets_component [OF assms]
  have a1: "((offsetX (getRenderedImageGeometry i) = 0) \<noteq> (offsetY (getRenderedImageGeometry i) = 0))
            \<longleftrightarrow> naturalWidth i / naturalHeight i \<noteq> clientWidth i / clientHeight i"
    using a(1) a(2) by blast
  have b1: "((offsetX (getRenderedImageGeometryComponent i) = 0)
              \<noteq> (offsetY (getRenderedImageGeometryComponent i) = 0))
            \<longleftrightarrow> naturalWidth i / naturalHeight i \<noteq> clientWidth i / clientHeight i"
    using b(1) b(2) by blast
  show ?thesis using a(1) a1 a(3) a(4) b(1) b1 b(3) b(4) by blast
qed

text \<open>An image twice as wide as high in a square box: letterboxed above and below.\<close>

theorem geometry_one_offset_zero_and_centered_witness:
  "offsetX (getRenderedImageGeometry
      \<lparr>naturalWidth = 1000, naturalHeight = 500, clientWidth = 400, clientHeight = 400\<rparr>) = 0
   \<and> offsetY (getRenderedImageGeometry
      \<lparr>naturalWidth = 1000, naturalHeight = 500, clientWidth = 400, clientHeight = 400\<rparr>) = 100
   \<and> offsetY (getRenderedImageGeometry
      \<lparr>naturalWidth = 1000, naturalHeight = 500, clientWidth = 400, clientHeight = 400\<rparr>) * 2
     + renderedHeight (getRenderedImageGeometry
      \<lparr>naturalWidth = 1000, naturalHeight = 500, clientWidth = 400, clientHeight = 400\<rparr>) = 400"
proof -
  let ?i = "\<lparr>naturalWidth = 1000, naturalHeight = 500, clientWidth = 400, clientHeight = 400\<rparr>"
  have p: "0 < naturalWidth ?i" "0 < naturalHeight ?i" "0 < clientWidth ?i" "0 < clientHeight ?i"
    by simp_all
  have v: "offsetY (getRenderedImageGeometry ?i) = 100"
    by (simp add: getRenderedImageGeometry_def Let_def)
  from geometry_one_offset_zero_and_centered [OF p] v show ?thesis by simp
qed

text \<open>
  Claim C2 as the specification states it fails where the two aspect ratios are equal:
  a \<open>100 \<times> 100\<close> image in a \<open>50 \<times> 50\<close> box takes the \<open>else\<close> branch and fills the
  box, so both offsets are zero and it is not the case that exactly one is.
\<close>

theorem geometry_exactly_one_offset_zero_counterexample:
  "\<not> ((offsetX (getRenderedImageGeometry
          \<lparr>naturalWidth = 100, naturalHeight = 100, clientWidth = 50, clientHeight = 50\<rparr>) = 0)
       \<noteq> (offsetY (getRenderedImageGeometry
          \<lparr>naturalWidth = 100, naturalHeight = 100, clientWidth = 50, clientHeight = 50\<rparr>) = 0))"
  by (simp add: getRenderedImageGeometry_def Let_def)

section \<open>Text overlay: the two coordinate pairs\<close>

lemma click_places:
  assumes "imageRef s = Some img" "activeText s = None"
    and "activeText (handleImageClick e s) = Some t"
  shows "coordsAgree (getRenderedImageGeometry img) t \<and> fontSize t = 50"
  using assms
  by (auto simp add: handleImageClick_def getRenderedImageGeometryApp_def coordsAgree_def Let_def
      split: if_splits)

lemma suggestion_creates:
  assumes "imageRef s = Some img" "activeText s = None"
  shows "activeText (handleSelectSuggestion sug s) = Some
     \<lparr>textStr = sug, fontFamily = ''Roboto'', fontSize = 60, fontWeight = WeightBold,
      fontStyle = StyleNormal, color = ''#FFFFFF'',
      xNatural = (renderedWidth (getRenderedImageGeometry img) / 2)
                   * scale (getRenderedImageGeometry img),
      yNatural = (renderedHeight (getRenderedImageGeometry img) / 2)
                   * scale (getRenderedImageGeometry img),
      displayX = offsetX (getRenderedImageGeometry img)
                   + renderedWidth (getRenderedImageGeometry img) / 2,
      displayY = offsetY (getRenderedImageGeometry img)
                   + renderedHeight (getRenderedImageGeometry img) / 2\<rparr>"
  using assms
  by (simp add: handleSelectSuggestion_def getRenderedImageGeometryApp_def Let_def)

lemma suggestion_updates:
  assumes "imageRef s = Some img" "activeText s = Some t0"
  shows "activeText (handleSelectSuggestion sug s) = Some (t0\<lparr>textStr := sug\<rparr>)"
  using assms by (simp add: handleSelectSuggestion_def)


lemma move_preserves:
  assumes "coordsAgree (getRenderedImageGeometry img) td"
    and "u \<in> set (handleMouseMoveText d r ds rs img td ev)"
  shows "coordsAgree (getRenderedImageGeometry img) u"
  using assms by (auto simp add: handleMouseMoveText_def coordsAgree_def Let_def split: if_splits)




section \<open>Text suggestions: placement at the natural centre\<close>

text \<open>
  Claim C10. With the image element present and of positive dimensions: selecting a
  suggestion while no text is active creates an \<open>ActiveText\<close> with the suggestion as its
  text, at \<open>x = naturalWidth / 2\<close>, \<open>y = naturalHeight / 2\<close>, with font size \<open>60\<close>; a
  click that places a text gives it font size \<open>50\<close>; selecting a suggestion while a text
  is active replaces its text field and nothing else of it.
\<close>

theorem suggestion_at_natural_center:
  assumes "imageRef s = Some img"
    and "0 < naturalWidth img" "0 < naturalHeight img" "0 < clientWidth img" "0 < clientHeight img"
  shows "(activeText s = None
            \<longrightarrow> (\<exists>t. activeText (handleSelectSuggestion sug s) = Some t
                     \<and> xNatural t = naturalWidth img / 2 \<and> yNatural t = naturalHeight img / 2
                     \<and> fontSize t = 60 \<and> textStr t = sug))
       \<and> (\<forall>t'. activeText s = None \<and> activeText (handleImageClick e s) = Some t'
            \<longrightarrow> fontSize t' = 50)
       \<and> (\<forall>t0. activeText s = Some t0
            \<longrightarrow> activeText (handleSelectSuggestion sug s) = Some (t0\<lparr>textStr := sug\<rparr>))"
proof -
  note g = geometry_positive [OF assms(2-5)]
  have x: "renderedWidth (getRenderedImageGeometry img) / 2 * scale (getRenderedImageGeometry img)
           = naturalWidth img / 2"
    using g(3) by simp
  have y: "renderedHeight (getRenderedImageGeometry img) / 2 * scale (getRenderedImageGeometry img)
           = naturalHeight img / 2"
    using g(4) by simp
  have create: "activeText s = None
            \<longrightarrow> (\<exists>t. activeText (handleSelectSuggestion sug s) = Some t
                     \<and> xNatural t = naturalWidth img / 2 \<and> yNatural t = naturalHeight img / 2
                     \<and> fontSize t = 60 \<and> textStr t = sug)"
  proof
    assume n: "activeText s = None"
    show "\<exists>t. activeText (handleSelectSuggestion sug s) = Some t
                     \<and> xNatural t = naturalWidth img / 2 \<and> yNatural t = naturalHeight img / 2
                     \<and> fontSize t = 60 \<and> textStr t = sug"
      unfolding suggestion_creates [OF assms(1) n] using x y by simp
  qed
  have click: "\<forall>t'. activeText s = None \<and> activeText (handleImageClick e s) = Some t'
            \<longrightarrow> fontSize t' = 50"
    using click_places [OF assms(1)] by blast
  have keep: "\<forall>t0. activeText s = Some t0
            \<longrightarrow> activeText (handleSelectSuggestion sug s) = Some (t0\<lparr>textStr := sug\<rparr>)"
    using suggestion_updates [OF assms(1)] by blast
  show ?thesis using create click keep by blast
qed

theorem suggestion_at_natural_center_witness:
  "\<exists>t. activeText (handleSelectSuggestion ''Summer Sale'' demoSession) = Some t
       \<and> xNatural t = 500 \<and> yNatural t = 250 \<and> fontSize t = 60 \<and> textStr t = ''Summer Sale''"
proof -
  have r: "imageRef demoSession = Some demoImage" "activeText demoSession = None"
    by (simp_all add: demoSession_def)
  have p: "0 < naturalWidth demoImage" "0 < naturalHeight demoImage"
    "0 < clientWidth demoImage" "0 < clientHeight demoImage"
    by (simp_all add: demoImage_def)
  have d: "naturalWidth demoImage / 2 = 500" "naturalHeight demoImage / 2 = 250"
    by (simp_all add: demoImage_def)
  from suggestion_at_natural_center [OF r(1) p, of "''Summer Sale''"] r(2) d
  show ?thesis by simp
qed

section \<open>Component drag\<close>





section \<open>Canvas resizer\<close>

lemma js_round_int: "v \<in> \<int> \<Longrightarrow> js_round v = v"
  by (auto simp add: js_round_def elim!: Ints_cases)

lemma js_round_ge: "z \<in> \<int> \<Longrightarrow> z \<le> v \<Longrightarrow> z \<le> js_round v"
  by (auto simp add: js_round_def le_floor_iff elim!: Ints_cases)

lemma js_round_Ints: "js_round v \<in> \<int>"
  by (simp add: js_round_def)

lemma floor_16_9: "\<lfloor>(16000::real) / 9 + 1/2\<rfloor> = 1778"
  by (simp add: floor_eq_iff)

lemma js_round_16_9: "js_round (16000 / 9) = 1778"
  apply (subst js_round_def)
  apply (subst floor_16_9)
  apply simp
  done

lemma half_not_int: "(1/2::real) \<notin> \<int>"
proof
  assume "(1/2::real) \<in> \<int>"
  then obtain k :: int where "(1/2::real) = of_int k" by (auto elim: Ints_cases)
  then have "(1::real) = of_int (2 * k)" by simp
  then have "(1::int) = 2 * k" using of_int_eq_iff [where 'a=real] by (metis of_int_1)
  then show False by presburger
qed

lemma ratioCanvas_wider:
  assumes "naturalWidth img \<in> \<int>" "naturalHeight img \<in> \<int>"
    and "0 < naturalWidth img" "0 < naturalHeight img"
    and "r > naturalWidth img / naturalHeight img"
  shows "height (ratioCanvas r imgSrc img) = naturalHeight img"
    and "width (ratioCanvas r imgSrc img) = js_round (naturalHeight img * r)"
    and "naturalWidth img \<le> width (ratioCanvas r imgSrc img)"
proof -
  show "height (ratioCanvas r imgSrc img) = naturalHeight img"
    using assms by (simp add: ratioCanvas_def Let_def js_round_int)
  show w: "width (ratioCanvas r imgSrc img) = js_round (naturalHeight img * r)"
    using assms by (simp add: ratioCanvas_def Let_def)
  have "naturalWidth img \<le> naturalHeight img * r"
    using assms(4,5) by (simp add: field_simps)
  then show "naturalWidth img \<le> width (ratioCanvas r imgSrc img)"
    unfolding w using assms(1) by (rule js_round_ge [rotated])
qed

lemma ratioCanvas_taller:
  assumes "naturalWidth img \<in> \<int>" "naturalHeight img \<in> \<int>"
    and "0 < naturalWidth img" "0 < naturalHeight img" "0 < r"
    and "\<not> r > naturalWidth img / naturalHeight img"
  shows "width (ratioCanvas r imgSrc img) = naturalWidth img"
    and "height (ratioCanvas r imgSrc img) = js_round (naturalWidth img / r)"
    and "naturalHeight img \<le> height (ratioCanvas r imgSrc img)"
proof -
  show "width (ratioCanvas r imgSrc img) = naturalWidth img"
    using assms by (simp add: ratioCanvas_def Let_def js_round_int)
  show h: "height (ratioCanvas r imgSrc img) = js_round (naturalWidth img / r)"
    using assms by (simp add: ratioCanvas_def Let_def)
  have "naturalHeight img \<le> naturalWidth img / r"
    using assms(4,5,6) by (simp add: field_simps)
  then show "naturalHeight img \<le> height (ratioCanvas r imgSrc img)"
    unfolding h using assms(2) by (rule js_round_ge [rotated])
qed

lemma ratioCanvas_ops:
  "ops (ratioCanvas r imgSrc img) =
     [SetFillStyle ''#FFFFFF'',
      FillRect 0 0 (width (ratioCanvas r imgSrc img)) (height (ratioCanvas r imgSrc img)),
      DrawImage imgSrc ((width (ratioCanvas r imgSrc img) - naturalWidth img) / 2)
                       ((height (ratioCanvas r imgSrc img) - naturalHeight img) / 2)]"
  by (simp add: ratioCanvas_def Let_def)

lemma ratioCanvas_Ints:
  "width (ratioCanvas r imgSrc img) \<in> \<int>" "height (ratioCanvas r imgSrc img) \<in> \<int>"
  by (simp_all add: ratioCanvas_def Let_def js_round_Ints)

lemma ratioCanvas_16_9:
  "ratioCanvas (16/9) imgSrc (img\<lparr>naturalWidth := 1000, naturalHeight := 1000\<rparr>) =
     \<lparr>width = 1778, height = 1000,
      ops = [SetFillStyle ''#FFFFFF'', FillRect 0 0 1778 1000, DrawImage imgSrc 389 0]\<rparr>"
  by (simp add: ratioCanvas_def Let_def js_round_int js_round_16_9)

text \<open>
  Claim C6, as the code has it. For an image of positive integer natural size and a
  positive target ratio: when the target ratio is greater than the original ratio the
  height is held and the width becomes \<open>Math.round(height * ratio)\<close>, not less than the
  original width; otherwise the width is held and the height becomes
  \<open>Math.round(width / ratio)\<close>, not less than the original height. Both new dimensions
  are integers. The canvas is filled white and the original is drawn at
  \<open>((newW - origW) / 2, (newH - origH) / 2)\<close>; these offsets are not rounded, so each is
  an integer or an integer plus one half (twice the offset is an integer). Ratio \<open>16/9\<close>
  on \<open>1000 \<times> 1000\<close> gives \<open>1778 \<times> 1000\<close> with the original drawn at \<open>(389, 0)\<close>.
\<close>

theorem ratio_canvas_dimensions_and_offsets:
  assumes "naturalWidth img \<in> \<int>" "naturalHeight img \<in> \<int>"
    and "0 < naturalWidth img" "0 < naturalHeight img" "0 < r"
  shows "(r > naturalWidth img / naturalHeight img
            \<longrightarrow> height (ratioCanvas r imgSrc img) = naturalHeight img
              \<and> width (ratioCanvas r imgSrc img) = js_round (naturalHeight img * r)
              \<and> naturalWidth img \<le> width (ratioCanvas r imgSrc img))
       \<and> (\<not> r > naturalWidth img / naturalHeight img
            \<longrightarrow> width (ratioCanvas r imgSrc img) = naturalWidth img
              \<and> height (ratioCanvas r imgSrc img) = js_round (naturalWidth img / r)
              \<and> naturalHeight img \<le> height (ratioCanvas r imgSrc img))
       \<and> width (ratioCanvas r imgSrc img) \<in> \<int> \<and> height (ratioCanvas r imgSrc img) \<in> \<int>
       \<and> ops (ratioCanvas r imgSrc img) =
           [SetFillStyle ''#FFFFFF'',
            FillRect 0 0 (width (ratioCanvas r imgSrc img)) (height (ratioCanvas r imgSrc img)),
            DrawImage imgSrc ((width (ratioCanvas r imgSrc img) - naturalWidth img) / 2)
                             ((height (ratioCanvas r imgSrc img) - naturalHeight img) / 2)]
       \<and> 2 * ((width (ratioCanvas r imgSrc img) - naturalWidth img) / 2) \<in> \<int>
       \<and> 2 * ((height (ratioCanvas r imgSrc img) - naturalHeight img) / 2) \<in> \<int>
       \<and> ratioCanvas (16/9) imgSrc (img\<lparr>naturalWidth := 1000, naturalHeight := 1000\<rparr>) =
           \<lparr>width = 1778, height = 1000,
            ops = [SetFillStyle ''#FFFFFF'', FillRect 0 0 1778 1000, DrawImage imgSrc 389 0]\<rparr>"
proof -
  have wide: "r > naturalWidth img / naturalHeight img
            \<longrightarrow> height (ratioCanvas r imgSrc img) = naturalHeight img
              \<and> width (ratioCanvas r imgSrc img) = js_round (naturalHeight img * r)
              \<and> naturalWidth img \<le> width (ratioCanvas r imgSrc img)"
    using ratioCanvas_wider [OF assms(1-4)] by blast
  have tall: "\<not> r > naturalWidth img / naturalHeight img
            \<longrightarrow> width (ratioCanvas r imgSrc img) = naturalWidth img
              \<and> height (ratioCanvas r imgSrc img) = js_round (naturalWidth img / r)
              \<and> naturalHeight img \<le> height (ratioCanvas r imgSrc img)"
    using ratioCanvas_taller [OF assms] by blast
  have twice: "2 * ((a - b) / 2) = a - b" for a b :: real by simp
  have dx: "2 * ((width (ratioCanvas r imgSrc img) - naturalWidth img) / 2) \<in> \<int>"
    unfolding twice using ratioCanvas_Ints(1) [of r imgSrc img] assms(1) by (rule Ints_diff)
  have dy: "2 * ((height (ratioCanvas r imgSrc img) - naturalHeight img) / 2) \<in> \<int>"
    unfolding twice using ratioCanvas_Ints(2) [of r imgSrc img] assms(2) by (rule Ints_diff)
  show ?thesis
    using wide tall ratioCanvas_Ints [of r imgSrc img] ratioCanvas_ops [of r imgSrc img] dx dy
      ratioCanvas_16_9 [of imgSrc img]
    by blast
qed

theorem ratio_canvas_dimensions_and_offsets_witness:
  "height (ratioCanvas (16/9) ''data:image/png;base64,AAAA'' squareImage) = 1000
   \<and> width (ratioCanvas (16/9) ''data:image/png;base64,AAAA'' squareImage) = 1778
   \<and> naturalWidth squareImage \<le> width (ratioCanvas (16/9) ''data:image/png;base64,AAAA'' squareImage)"
proof -
  have p: "naturalWidth squareImage \<in> \<int>" "naturalHeight squareImage \<in> \<int>"
    "0 < naturalWidth squareImage" "0 < naturalHeight squareImage" "0 < (16/9::real)"
    by (simp_all add: squareImage_def)
  have g: "(16/9::real) > naturalWidth squareImage / naturalHeight squareImage"
    by (simp add: squareImage_def)
  have v: "js_round (naturalHeight squareImage * (16/9)) = 1778"
    by (simp add: squareImage_def js_round_16_9)
  from ratio_canvas_dimensions_and_offsets [OF p, of "''data:image/png;base64,AAAA''"] g v
  show ?thesis by (simp add: squareImage_def)
qed

text \<open>
  Claim C6 as the specification states it promises integer offsets. Ratio \<open>1\<close> (the
  preset 1:1) on a \<open>1001 \<times> 1000\<close> image gives a \<open>1001 \<times> 1001\<close> canvas and draws the
  original at \<open>y = 1/2\<close>, which is not an integer.
\<close>

theorem ratio_canvas_integer_offsets_counterexample:
  "ops (ratioCanvas 1 ''data:image/png;base64,AAAA''
          \<lparr>naturalWidth = 1001, naturalHeight = 1000, clientWidth = 0, clientHeight = 0\<rparr>)
     = [SetFillStyle ''#FFFFFF'', FillRect 0 0 1001 1001,
        DrawImage ''data:image/png;base64,AAAA'' 0 (1/2)]
   \<and> (1/2::real) \<notin> \<int>"
  using half_not_int by (simp add: ratioCanvas_def Let_def js_round_int)

section \<open>Component layers: the ids\<close>

lemma string_of_nat_small: "n < 10 \<Longrightarrow> string_of_nat n = [digit_char n]"
  by (subst string_of_nat.simps) simp

lemma string_of_nat_large:
  "\<not> n < 10 \<Longrightarrow> string_of_nat n = string_of_nat (n div 10) @ [digit_char (n mod 10)]"
  by (subst string_of_nat.simps) simp

lemma string_of_nat_not_Nil: "string_of_nat n \<noteq> []"
  by (subst string_of_nat.simps) simp

lemma digit_char_inj:
  assumes "a < 10" "b < 10" "digit_char a = digit_char b"
  shows "a = b"
proof -
  have a: "a \<in> {0, 1, 2, 3, 4, 5, 6, 7, 8, 9}" using assms(1) by auto
  have b: "b \<in> {0, 1, 2, 3, 4, 5, 6, 7, 8, 9}" using assms(2) by auto
  show ?thesis using a b assms(3) by (auto simp add: digit_char_def)
qed

text \<open>Different numbers print differently.\<close>

lemma string_of_nat_inj: "string_of_nat n = string_of_nat m \<Longrightarrow> n = m"
proof (induction n arbitrary: m rule: string_of_nat.induct)
  case (1 n)
  show ?case
  proof (cases "n < 10")
    case True
    note sn = string_of_nat_small [OF True]
    show ?thesis
    proof (cases "m < 10")
      case mt: True
      note sm = string_of_nat_small [OF mt]
      from "1.prems" have "digit_char n = digit_char m" unfolding sn sm by simp
      then show ?thesis using True mt by (rule digit_char_inj [rotated 2])
    next
      case mf: False
      note sm = string_of_nat_large [OF mf]
      from "1.prems" have "[digit_char n] = string_of_nat (m div 10) @ [digit_char (m mod 10)]"
        unfolding sn sm .
      then have "string_of_nat (m div 10) = []" by simp
      then show ?thesis using string_of_nat_not_Nil by blast
    qed
  next
    case False
    note sn = string_of_nat_large [OF False]
    show ?thesis
    proof (cases "m < 10")
      case mt: True
      note sm = string_of_nat_small [OF mt]
      from "1.prems" have "string_of_nat (n div 10) @ [digit_char (n mod 10)] = [digit_char m]"
        unfolding sn sm .
      then have "string_of_nat (n div 10) = []" by simp
      then show ?thesis using string_of_nat_not_Nil by blast
    next
      case mf: False
      note sm = string_of_nat_large [OF mf]
      from "1.prems" have "string_of_nat (n div 10) @ [digit_char (n mod 10)]
                           = string_of_nat (m div 10) @ [digit_char (m mod 10)]"
        unfolding sn sm .
      then have e: "string_of_nat (n div 10) = string_of_nat (m div 10)"
        and d: "digit_char (n mod 10) = digit_char (m mod 10)" by simp_all
      from "1.IH" [OF False e] have q: "n div 10 = m div 10" .
      have "n mod 10 < 10" "m mod 10 < 10" by simp_all
      then have r: "n mod 10 = m mod 10" using d by (rule digit_char_inj)
      show ?thesis using q r by (metis div_mult_mod_eq)
    qed
  qed
qed

lemma string_of_nat_clock: "string_of_nat 1700000000000 = ''1700000000000''"
  by (subst string_of_nat.simps, simp add: digit_char_def)+

lemma upload_resolved:
  "fileToDataUrl file = Resolved d \<Longrightarrow>
   map layerId (componentLayers (handleComponentUpload fileToDataUrl now file s))
     = map layerId (componentLayers s) @ [''comp_'' @ string_of_nat now]"
  by (simp add: handleComponentUpload_def Let_def)

lemma upload_rejected:
  "fileToDataUrl file = Rejected m \<Longrightarrow>
   componentLayers (handleComponentUpload fileToDataUrl now file s) = componentLayers s"
  by (simp add: handleComponentUpload_def)

lemma uploadAll_ids:
  "map layerId (componentLayers (uploadAll rd ups s))
     = map layerId (componentLayers s)
       @ map (\<lambda>p. ''comp_'' @ string_of_nat (fst p)) (filter (\<lambda>p. resolves rd (snd p)) ups)"
proof (induction ups arbitrary: s)
  case Nil
  show ?case by (simp add: uploadAll_def)
next
  case (Cons p ups)
  obtain now f where p: "p = (now, f)" by (cases p)
  have step: "uploadAll rd (p # ups) s = uploadAll rd ups (handleComponentUpload rd now f s)"
    by (simp add: uploadAll_def p)
  show ?case
  proof (cases "rd f")
    case (Resolved d)
    then show ?thesis
      unfolding step Cons.IH by (simp add: upload_resolved p resolves_def)
  next
    case (Rejected m)
    then show ?thesis
      unfolding step Cons.IH by (simp add: upload_rejected p resolves_def)
  qed
qed

text \<open>Where the ids are unique: uploads into an empty collection whose clock readings
  are pairwise different.\<close>

lemma component_ids_distinct_for_distinct_clock:
  assumes "componentLayers s = []" and "distinct (map fst ups)"
  shows "distinct (map layerId (componentLayers (uploadAll rd ups s)))"
proof -
  let ?kept = "filter (\<lambda>p. resolves rd (snd p)) ups"
  have inj: "inj (\<lambda>n. ''comp_'' @ string_of_nat n)"
    by (auto simp add: inj_def dest: string_of_nat_inj)
  have "distinct (map fst ?kept)"
    using assms(2) by (rule distinct_map_filter)
  then have d: "distinct ?kept" and f: "inj_on fst (set ?kept)"
    by (simp_all add: distinct_map)
  have "inj_on (\<lambda>n. ''comp_'' @ string_of_nat n) (fst ` set ?kept)"
    using inj by (rule inj_on_subset) simp
  with f have "inj_on ((\<lambda>n. ''comp_'' @ string_of_nat n) \<circ> fst) (set ?kept)"
    by (rule comp_inj_on)
  then have "inj_on (\<lambda>p. ''comp_'' @ string_of_nat (fst p)) (set ?kept)"
    by (simp only: comp_def)
  with d have "distinct (map (\<lambda>p. ''comp_'' @ string_of_nat (fst p)) ?kept)"
    by (simp only: distinct_map simp_thms)
  then show ?thesis
    by (simp add: uploadAll_ids assms(1))
qed

text \<open>
  Claim C3 at two uploads whose layers are created in the same millisecond. The id is
  \<open>comp_\<close> followed by \<open>Date.now()\<close>, so both layers get the id \<open>comp_1700000000000\<close>:
  the ids of the collection are not distinct, and deleting the selected layer, which
  filters by id, removes both.
\<close>

theorem component_ids_shared_within_one_millisecond:
  "map layerId (componentLayers (uploadAll demoReader
       [(1700000000000, File ''a.png''), (1700000000000, File ''b.png'')] demoSession))
     = [''comp_1700000000000'', ''comp_1700000000000'']
   \<and> \<not> distinct (map layerId (componentLayers (uploadAll demoReader
       [(1700000000000, File ''a.png''), (1700000000000, File ''b.png'')] demoSession)))
   \<and> map src (componentLayers (uploadAll demoReader
       [(1700000000000, File ''a.png''), (1700000000000, File ''b.png'')] demoSession))
     = [''data:image/png;name=a.png'', ''data:image/png;name=b.png'']
   \<and> componentLayers (handleDeleteComponent (uploadAll demoReader
       [(1700000000000, File ''a.png''), (1700000000000, File ''b.png'')] demoSession)) = []"
proof -
  let ?s = "uploadAll demoReader
       [(1700000000000, File ''a.png''), (1700000000000, File ''b.png'')] demoSession"
  have ids: "map layerId (componentLayers ?s) = [''comp_1700000000000'', ''comp_1700000000000'']"
    by (simp add: uploadAll_ids resolves_def demoReader_def demoSession_def string_of_nat_clock)
  have nd: "\<not> distinct (map layerId (componentLayers ?s))"
    unfolding ids by simp
  have srcs: "map src (componentLayers ?s)
     = [''data:image/png;name=a.png'', ''data:image/png;name=b.png'']"
    by (simp add: uploadAll_def handleComponentUpload_def demoReader_def demoSession_def Let_def)
  have del: "componentLayers (handleDeleteComponent ?s) = []"
    by (simp add: uploadAll_def handleComponentUpload_def handleDeleteComponent_def
        demoReader_def demoSession_def Let_def)
  show ?thesis using ids nd srcs del by blast
qed

section \<open>Failed commits\<close>












section \<open>Component merge: the order of the transforms\<close>

lemma merge_ops:
  "ops (mergeCanvas d b ci c) =
     [DrawImage d 0 0, Save,
      Translate (layerX c * naturalWidth b) (layerY c * naturalHeight b),
      Rotate (rotation c * pi / 180),
      Scale (if flipH c then -1 else 1) (if flipV c then -1 else 1),
      DrawImageScaled (src c)
        (- (naturalWidth b * layerScale c) / 2)
        (- (naturalWidth b * layerScale c / (naturalWidth ci / naturalHeight ci)) / 2)
        (naturalWidth b * layerScale c)
        (naturalWidth b * layerScale c / (naturalWidth ci / naturalHeight ci)),
      Restore]"
  by (simp add: mergeCanvas_def Let_def)

lemma mat_mul_identity: "mat_mul identityM m = m"
  by (cases m) (simp add: identityM_def)

lemma paint_merge:
  "map snd (paint (ops (mergeCanvas d b ci c))) = [identityM, mergeTransform b c]"
  by (simp add: merge_ops paint_def mergeTransform_def mat_mul_identity)

lemma mergeTransform_apply:
  "mat_apply (mergeTransform b c) (px, py) =
     (layerX c * naturalWidth b
        + (cos (rotation c * pi / 180) * ((if flipH c then -1 else 1) * px)
           - sin (rotation c * pi / 180) * ((if flipV c then -1 else 1) * py)),
      layerY c * naturalHeight b
        + (sin (rotation c * pi / 180) * ((if flipH c then -1 else 1) * px)
           + cos (rotation c * pi / 180) * ((if flipV c then -1 else 1) * py)))"
  by (simp add: mergeTransform_def translateM_def rotateM_def scaleM_def algebra_simps)

lemma mergeTransform_is_flipThenRotate:
  "mat_apply (mergeTransform b c) (px, py) = flipThenRotate b c (px, py)"
  by (simp add: mergeTransform_apply flipThenRotate_def rotatePoint_def flipPoint_def Let_def
      algebra_simps)

lemma quarter_turn_flipH:
  assumes "rotation c = 90" "flipH c" "\<not> flipV c"
  shows "mat_apply (mergeTransform b c) (px, py)
           = (layerX c * naturalWidth b - py, layerY c * naturalHeight b - px)"
    and "rotateThenFlip b c (px, py)
           = (layerX c * naturalWidth b + py, layerY c * naturalHeight b + px)"
  using assms
  by (simp_all add: mergeTransform_apply rotateThenFlip_def rotatePoint_def flipPoint_def Let_def)

text \<open>
  Claim C7, as the code has it. The merge draws the base image and then calls, in this
  order, \<open>save\<close>, \<open>translate\<close> to the layer's centre, \<open>rotate\<close> by \<open>rotation\<close>
  degrees, \<open>scale\<close> by \<open>(flipH ? -1 : 1, flipV ? -1 : 1)\<close>, \<open>drawImage\<close> of the
  component centred on the origin, \<open>restore\<close>. Each call multiplies the current matrix on
  the right, so the component is painted through translate \<open>\<cdot>\<close> rotate \<open>\<cdot>\<close> scale: a
  point of the component is mirrored first, in the component's own frame, and the mirrored
  point is turned and moved to the centre. The result is "flip then rotate" for every
  layer. For \<open>rotation = 90\<close> with \<open>flipH\<close> a point \<open>(px, py)\<close> is painted at the centre
  plus \<open>(- py, - px)\<close>, where "rotate then flip" has the centre plus \<open>(py, px)\<close>: a
  different pixel wherever \<open>px + py \<noteq> 0\<close>.
\<close>

theorem merge_transform_order:
  "ops (mergeCanvas d b ci c) =
     [DrawImage d 0 0, Save,
      Translate (layerX c * naturalWidth b) (layerY c * naturalHeight b),
      Rotate (rotation c * pi / 180),
      Scale (if flipH c then -1 else 1) (if flipV c then -1 else 1),
      DrawImageScaled (src c)
        (- (naturalWidth b * layerScale c) / 2)
        (- (naturalWidth b * layerScale c / (naturalWidth ci / naturalHeight ci)) / 2)
        (naturalWidth b * layerScale c)
        (naturalWidth b * layerScale c / (naturalWidth ci / naturalHeight ci)),
      Restore]
   \<and> map snd (paint (ops (mergeCanvas d b ci c))) = [identityM, mergeTransform b c]
   \<and> mat_apply (mergeTransform b c) (px, py) = flipThenRotate b c (px, py)
   \<and> (rotation c = 90 \<and> flipH c \<and> \<not> flipV c
       \<longrightarrow> mat_apply (mergeTransform b c) (px, py)
             = (layerX c * naturalWidth b - py, layerY c * naturalHeight b - px)
         \<and> rotateThenFlip b c (px, py)
             = (layerX c * naturalWidth b + py, layerY c * naturalHeight b + px)
         \<and> (px + py \<noteq> 0
              \<longrightarrow> mat_apply (mergeTransform b c) (px, py) \<noteq> rotateThenFlip b c (px, py)))"
proof -
  have q: "rotation c = 90 \<and> flipH c \<and> \<not> flipV c
       \<longrightarrow> mat_apply (mergeTransform b c) (px, py)
             = (layerX c * naturalWidth b - py, layerY c * naturalHeight b - px)
         \<and> rotateThenFlip b c (px, py)
             = (layerX c * naturalWidth b + py, layerY c * naturalHeight b + px)
         \<and> (px + py \<noteq> 0
              \<longrightarrow> mat_apply (mergeTransform b c) (px, py) \<noteq> rotateThenFlip b c (px, py))"
  proof
    assume a: "rotation c = 90 \<and> flipH c \<and> \<not> flipV c"
    then have r: "rotation c = 90" and h: "flipH c" and v: "\<not> flipV c" by simp_all
    note e = quarter_turn_flipH [OF r h v, of b px py]
    have "px + py \<noteq> 0
            \<longrightarrow> mat_apply (mergeTransform b c) (px, py) \<noteq> rotateThenFlip b c (px, py)"
      unfolding e by auto
    with e show "mat_apply (mergeTransform b c) (px, py)
             = (layerX c * naturalWidth b - py, layerY c * naturalHeight b - px)
         \<and> rotateThenFlip b c (px, py)
             = (layerX c * naturalWidth b + py, layerY c * naturalHeight b + px)
         \<and> (px + py \<noteq> 0
              \<longrightarrow> mat_apply (mergeTransform b c) (px, py) \<noteq> rotateThenFlip b c (px, py))"
      by blast
  qed
  show ?thesis
    apply (intro conjI)
    apply (rule merge_ops)
    apply (rule paint_merge)
    apply (rule mergeTransform_is_flipThenRotate)
    apply (rule q)
    done
qed

text \<open>The example layer, turned by a quarter and mirrored, on the \<open>1000 \<times> 1000\<close> image:
  the point one pixel to the right of the component's centre is painted one pixel above
  the centre \<open>(500, 500)\<close>.\<close>

theorem merge_transform_order_witness:
  "rotation turnedLayer = 90 \<and> flipH turnedLayer \<and> \<not> flipV turnedLayer
   \<and> mat_apply (mergeTransform squareImage turnedLayer) (1, 0) = (500, 499)"
proof -
  have a: "rotation turnedLayer = 90 \<and> flipH turnedLayer \<and> \<not> flipV turnedLayer"
    by (simp add: turnedLayer_def demoLayer_def)
  have c: "layerX turnedLayer * naturalWidth squareImage = 500"
    "layerY turnedLayer * naturalHeight squareImage = 500"
    by (simp_all add: turnedLayer_def demoLayer_def squareImage_def)
  have "rotation turnedLayer = 90 \<and> flipH turnedLayer \<and> \<not> flipV turnedLayer
       \<longrightarrow> mat_apply (mergeTransform squareImage turnedLayer) (1, 0)
             = (layerX turnedLayer * naturalWidth squareImage - 0,
                layerY turnedLayer * naturalHeight squareImage - 1)
         \<and> rotateThenFlip squareImage turnedLayer (1, 0)
             = (layerX turnedLayer * naturalWidth squareImage + 0,
                layerY turnedLayer * naturalHeight squareImage + 1)
         \<and> ((1::real) + 0 \<noteq> 0
              \<longrightarrow> mat_apply (mergeTransform squareImage turnedLayer) (1, 0)
                    \<noteq> rotateThenFlip squareImage turnedLayer (1, 0))"
    by (rule merge_transform_order
               [of _ squareImage _ turnedLayer 1 0, THEN conjunct2, THEN conjunct2,
                THEN conjunct2])
  with a have "mat_apply (mergeTransform squareImage turnedLayer) (1, 0)
             = (layerX turnedLayer * naturalWidth squareImage - 0,
                layerY turnedLayer * naturalHeight squareImage - 1)"
    by blast
  then have "mat_apply (mergeTransform squareImage turnedLayer) (1, 0) = (500, 499)"
    unfolding c by simp
  with a show ?thesis by blast
qed

text \<open>
  Claim C7 as the specification states it has the result equal to "rotate then flip" and
  not to "flip then rotate". For the example layer with \<open>rotation = 90\<close> and \<open>flipH\<close>,
  merged onto the \<open>1000 \<times> 1000\<close> image, the component is painted through the matrix of
  the calls, which puts the point \<open>(1, 0)\<close> at \<open>(500, 499)\<close>: where "flip then rotate"
  puts it, and not at \<open>(500, 501)\<close>, where "rotate then flip" does.
\<close>

theorem merge_is_not_rotate_then_flip_counterexample:
  "map snd (paint (ops (mergeCanvas ''data:image/png;base64,AAAA'' squareImage squareImage
       turnedLayer))) = [identityM, mergeTransform squareImage turnedLayer]
   \<and> mat_apply (mergeTransform squareImage turnedLayer) (1, 0) = (500, 499)
   \<and> flipThenRotate squareImage turnedLayer (1, 0) = (500, 499)
   \<and> rotateThenFlip squareImage turnedLayer (1, 0) = (500, 501)
   \<and> mat_apply (mergeTransform squareImage turnedLayer) (1, 0)
       \<noteq> rotateThenFlip squareImage turnedLayer (1, 0)"
proof -
  have m: "mat_apply (mergeTransform squareImage turnedLayer) (1, 0) = (500, 499)"
    by (simp add: mergeTransform_apply turnedLayer_def demoLayer_def squareImage_def)
  have f: "flipThenRotate squareImage turnedLayer (1, 0) = (500, 499)"
    by (simp add: flipThenRotate_def rotatePoint_def flipPoint_def Let_def turnedLayer_def
        demoLayer_def squareImage_def)
  have r: "rotateThenFlip squareImage turnedLayer (1, 0) = (500, 501)"
    by (simp add: rotateThenFlip_def rotatePoint_def flipPoint_def Let_def turnedLayer_def
        demoLayer_def squareImage_def)
  have d: "mat_apply (mergeTransform squareImage turnedLayer) (1, 0)
       \<noteq> rotateThenFlip squareImage turnedLayer (1, 0)"
    unfolding m r by simp
  show ?thesis using paint_merge m f r d by blast
qed

end
